theory Spec2Isabelle
  imports Main "HOL-Library.Finite_Map" "HOL-Library.Word"
begin

section \<open>The in-memory store of db/memorystore.go\<close>

text \<open>
  The store keeps five Go maps from identifier strings to pointers. The entities are
  owned by the callers; the store holds references to them, and \<open>GetOrderByID\<close> writes
  through such a reference. Memory is therefore explicit: one typed heap per entity kind,
  a total function from addresses to objects (Go has no dangling pointers, and pointers of
  different types never alias). A pointer is an address or \<open>nil\<close>.
\<close>

type_synonym addr = nat

type_synonym ptr = "addr option"  \<comment> \<open>\<open>None\<close> is Go's \<open>nil\<close>\<close>

type_synonym bytes = "8 word list option"
  \<comment> \<open>a Go \<open>[]byte\<close>: \<open>None\<close> is the nil slice, \<open>Some []\<close> the empty non-nil slice\<close>

subsection \<open>Entities (package core): the fields this file reads or writes\<close>

text \<open>
  Package \<open>core\<close> is not part of the file; each entity is a record of the fields that
  \<open>memorystore.go\<close> touches, and every further field lives in the record's extension
  (\<open>more\<close>), which no operation below can reach.

  \<open>Order\<close>, \<open>Authorization\<close> and \<open>Challenge\<close> embed a \<open>sync.RWMutex\<close>. The operations
  run one at a time here, so no write lock is ever held when an operation starts, and the
  mutex is represented by the number of read locks that are currently held on it:
  \<open>RLock\<close> adds one, \<open>RUnlock\<close> removes one, and \<open>Lock\<close> can only proceed when the count
  is zero (it waits for the readers to leave, and nothing else runs that could release
  them). \<open>RUnlock\<close> is only ever called on a mutex that the same operation has just
  read-locked, so the count it decrements is positive. The store's own mutex is taken at the start of every method and released by
  \<open>defer\<close> on every path, panics included, so it is not represented.
\<close>

record Account =
  acct_ID :: string
  acct_Key :: ptr

record Order =
  order_readers :: nat
  order_ID :: string
  order_Status :: string

record Authorization =
  authz_readers :: nat
  authz_ID :: string

record Challenge =
  chal_readers :: nat
  chal_ID :: string

record Certificate =
  cert_ID :: string
  cert_DER :: bytes

record ('a, 'o, 'z, 'h, 'c) heap =
  accounts :: "addr \<Rightarrow> 'a Account_scheme"
  orders :: "addr \<Rightarrow> 'o Order_scheme"
  authorizations :: "addr \<Rightarrow> 'z Authorization_scheme"
  challenges :: "addr \<Rightarrow> 'h Challenge_scheme"
  certificates :: "addr \<Rightarrow> 'c Certificate_scheme"

subsection \<open>The store\<close>

text \<open>
  \<open>clk\<close> is the reading of the injected clock when the operation runs. Only
  \<open>UpdateAccountByID\<close> can store a pointer it has not dereferenced, so only
  \<open>accountsByID\<close> can hold \<open>nil\<close> as a value; the other four maps receive nothing but
  pointers that the \<open>Add\<close> operation has already read through.
\<close>

record MemoryStore =
  clk :: int
  accountsByID :: "(string, ptr) fmap"
  ordersByID :: "(string, addr) fmap"
  authorizationsByID :: "(string, addr) fmap"
  challengesByID :: "(string, addr) fmap"
  certificatesByID :: "(string, addr) fmap"

definition NewMemoryStore :: "int \<Rightarrow> MemoryStore" where
  "NewMemoryStore c =
     \<lparr>clk = c, accountsByID = fmempty, ordersByID = fmempty, authorizationsByID = fmempty,
      challengesByID = fmempty, certificatesByID = fmempty\<rparr>"

text \<open>The errors built with \<open>fmt.Errorf\<close>, by the message they carry.\<close>

datatype kind = K_account | K_order | K_authz | K_challenge | K_cert

datatype error =
    EmptyIdentifier kind        \<comment> \<open>"... must have a non-empty ID to add to MemoryStore"\<close>
  | MissingRequiredField        \<comment> \<open>"account must not have a nil Key"\<close>
  | AlreadyExists kind string   \<comment> \<open>"... %q already exists"\<close>
  | NotFound string             \<comment> \<open>"account with ID %q does not exist"\<close>

text \<open>
  How a call ends: it returns, it panics with an error value (given by its message), it
  dereferences \<open>nil\<close> (a run-time panic), or it waits for ever on a lock.
\<close>

datatype 'r outcome = Return 'r | Panic string | NilDereference | Blocked

text \<open>\<open>len\<close> of a map and the index expression \<open>m[k]\<close> (the zero value for a missing key).\<close>

definition len :: "('k, 'v) fmap \<Rightarrow> int" where
  "len mp = int (fcard (fmdom mp))"

definition index :: "('k, ptr) fmap \<Rightarrow> 'k \<Rightarrow> ptr" where
  "index mp k = (case fmlookup mp k of None \<Rightarrow> None | Some p \<Rightarrow> p)"

subsection \<open>Accounts\<close>

definition GetAccountByID :: "MemoryStore \<Rightarrow> string \<Rightarrow> ptr" where
  "GetAccountByID m ident = index (accountsByID m) ident"

definition UpdateAccountByID :: "MemoryStore \<Rightarrow> string \<Rightarrow> ptr \<Rightarrow> MemoryStore \<times> error option" where
  "UpdateAccountByID m ident acct =
     (if index (accountsByID m) ident = None then (m, Some (NotFound ident))
      else (m\<lparr>accountsByID := fmupd ident acct (accountsByID m)\<rparr>, None))"

definition AddAccount ::
  "('a, 'o, 'z, 'h, 'c) heap \<Rightarrow> MemoryStore \<Rightarrow> ptr \<Rightarrow> (MemoryStore \<times> int \<times> error option) outcome"
where
  "AddAccount h m acct =
     (case acct of
        None \<Rightarrow> NilDereference
      | Some a \<Rightarrow>
          let acctID = acct_ID (accounts h a) in
          if length acctID = 0 then Return (m, 0, Some (EmptyIdentifier K_account))
          else if acct_Key (accounts h a) = None then Return (m, 0, Some MissingRequiredField)
          else if acctID |\<in>| fmdom (accountsByID m)
            then Return (m, 0, Some (AlreadyExists K_account acctID))
          else
            let m' = m\<lparr>accountsByID := fmupd acctID acct (accountsByID m)\<rparr>
            in Return (m', len (accountsByID m'), None))"

subsection \<open>Orders\<close>

definition order_RLock :: "('a, 'o, 'z, 'h, 'c) heap \<Rightarrow> addr \<Rightarrow> ('a, 'o, 'z, 'h, 'c) heap" where
  "order_RLock h p = h\<lparr>orders := (orders h)(p := (orders h p)\<lparr>order_readers := order_readers (orders h p) + 1\<rparr>)\<rparr>"

definition order_RUnlock :: "('a, 'o, 'z, 'h, 'c) heap \<Rightarrow> addr \<Rightarrow> ('a, 'o, 'z, 'h, 'c) heap" where
  "order_RUnlock h p = h\<lparr>orders := (orders h)(p := (orders h p)\<lparr>order_readers := order_readers (orders h p) - 1\<rparr>)\<rparr>"

definition AddOrder ::
  "('a, 'o, 'z, 'h, 'c) heap \<Rightarrow> MemoryStore \<Rightarrow> ptr
     \<Rightarrow> (('a, 'o, 'z, 'h, 'c) heap \<times> MemoryStore \<times> int \<times> error option) outcome"
where
  "AddOrder h m order =
     (case order of
        None \<Rightarrow> NilDereference
      | Some p \<Rightarrow>
          let h1 = order_RLock h p;
              orderID = order_ID (orders h1 p) in
          if length orderID = 0 then Return (h1, m, 0, Some (EmptyIdentifier K_order))
          else
            let h2 = order_RUnlock h1 p in
            if orderID |\<in>| fmdom (ordersByID m)
              then Return (h2, m, 0, Some (AlreadyExists K_order orderID))
            else
              let m' = m\<lparr>ordersByID := fmupd orderID p (ordersByID m)\<rparr>
              in Return (h2, m', len (ordersByID m'), None))"

text \<open>The assignment \<open>order.Status = orderStatus\<close> through the pointer.\<close>

definition order_set_Status ::
  "('a, 'o, 'z, 'h, 'c) heap \<Rightarrow> addr \<Rightarrow> string \<Rightarrow> ('a, 'o, 'z, 'h, 'c) heap" where
  "order_set_Status h p st = h\<lparr>orders := (orders h)(p := (orders h p)\<lparr>order_Status := st\<rparr>)\<rparr>"

text \<open>
  \<open>GetStatus\<close> is a method of \<open>core.Order\<close> and is not in this file: it is a parameter,
  a function of the memory, the order's address and the clock reading that yields an error
  (\<open>Inl\<close> of its message) or a status (\<open>Inr\<close>) and changes nothing.
\<close>

definition GetOrderByID ::
  "(('a, 'o, 'z, 'h, 'c) heap \<Rightarrow> addr \<Rightarrow> int \<Rightarrow> string + string)
     \<Rightarrow> ('a, 'o, 'z, 'h, 'c) heap \<Rightarrow> MemoryStore \<Rightarrow> string
     \<Rightarrow> (('a, 'o, 'z, 'h, 'c) heap \<times> ptr) outcome"
where
  "GetOrderByID GetStatus h m ident =
     (case fmlookup (ordersByID m) ident of
        Some p \<Rightarrow>
          (case GetStatus h p (clk m) of
             Inl err \<Rightarrow> Panic err
           | Inr orderStatus \<Rightarrow>
               \<comment> \<open>\<open>order.Lock()\<close> waits while a read lock is held\<close>
               if order_readers (orders h p) \<noteq> 0 then Blocked
               else Return (order_set_Status h p orderStatus, Some p))
      | None \<Rightarrow> Return (h, None))"

subsection \<open>Authorizations\<close>

definition authz_RLock :: "('a, 'o, 'z, 'h, 'c) heap \<Rightarrow> addr \<Rightarrow> ('a, 'o, 'z, 'h, 'c) heap" where
  "authz_RLock h p =
     h\<lparr>authorizations := (authorizations h)
         (p := (authorizations h p)\<lparr>authz_readers := authz_readers (authorizations h p) + 1\<rparr>)\<rparr>"

definition authz_RUnlock :: "('a, 'o, 'z, 'h, 'c) heap \<Rightarrow> addr \<Rightarrow> ('a, 'o, 'z, 'h, 'c) heap" where
  "authz_RUnlock h p =
     h\<lparr>authorizations := (authorizations h)
         (p := (authorizations h p)\<lparr>authz_readers := authz_readers (authorizations h p) - 1\<rparr>)\<rparr>"

definition AddAuthorization ::
  "('a, 'o, 'z, 'h, 'c) heap \<Rightarrow> MemoryStore \<Rightarrow> ptr
     \<Rightarrow> (('a, 'o, 'z, 'h, 'c) heap \<times> MemoryStore \<times> int \<times> error option) outcome"
where
  "AddAuthorization h m authz =
     (case authz of
        None \<Rightarrow> NilDereference
      | Some p \<Rightarrow>
          let h1 = authz_RLock h p;
              authzID = authz_ID (authorizations h1 p) in
          if length authzID = 0 then Return (h1, m, 0, Some (EmptyIdentifier K_authz))
          else
            let h2 = authz_RUnlock h1 p in
            if authzID |\<in>| fmdom (authorizationsByID m)
              then Return (h2, m, 0, Some (AlreadyExists K_authz authzID))
            else
              let m' = m\<lparr>authorizationsByID := fmupd authzID p (authorizationsByID m)\<rparr>
              in Return (h2, m', len (authorizationsByID m'), None))"

definition GetAuthorizationByID :: "MemoryStore \<Rightarrow> string \<Rightarrow> ptr" where
  "GetAuthorizationByID m ident = fmlookup (authorizationsByID m) ident"

subsection \<open>Challenges\<close>

definition chal_RLock :: "('a, 'o, 'z, 'h, 'c) heap \<Rightarrow> addr \<Rightarrow> ('a, 'o, 'z, 'h, 'c) heap" where
  "chal_RLock h p =
     h\<lparr>challenges := (challenges h)
         (p := (challenges h p)\<lparr>chal_readers := chal_readers (challenges h p) + 1\<rparr>)\<rparr>"

definition chal_RUnlock :: "('a, 'o, 'z, 'h, 'c) heap \<Rightarrow> addr \<Rightarrow> ('a, 'o, 'z, 'h, 'c) heap" where
  "chal_RUnlock h p =
     h\<lparr>challenges := (challenges h)
         (p := (challenges h p)\<lparr>chal_readers := chal_readers (challenges h p) - 1\<rparr>)\<rparr>"

definition AddChallenge ::
  "('a, 'o, 'z, 'h, 'c) heap \<Rightarrow> MemoryStore \<Rightarrow> ptr
     \<Rightarrow> (('a, 'o, 'z, 'h, 'c) heap \<times> MemoryStore \<times> int \<times> error option) outcome"
where
  "AddChallenge h m chal =
     (case chal of
        None \<Rightarrow> NilDereference
      | Some p \<Rightarrow>
          let h1 = chal_RLock h p;
              chalID = chal_ID (challenges h1 p);
              h2 = chal_RUnlock h1 p in
          if length chalID = 0 then Return (h2, m, 0, Some (EmptyIdentifier K_challenge))
          else if chalID |\<in>| fmdom (challengesByID m)
            then Return (h2, m, 0, Some (AlreadyExists K_challenge chalID))
          else
            let m' = m\<lparr>challengesByID := fmupd chalID p (challengesByID m)\<rparr>
            in Return (h2, m', len (challengesByID m'), None))"

definition GetChallengeByID :: "MemoryStore \<Rightarrow> string \<Rightarrow> ptr" where
  "GetChallengeByID m ident = fmlookup (challengesByID m) ident"

subsection \<open>Certificates\<close>

definition AddCertificate ::
  "('a, 'o, 'z, 'h, 'c) heap \<Rightarrow> MemoryStore \<Rightarrow> ptr \<Rightarrow> (MemoryStore \<times> int \<times> error option) outcome"
where
  "AddCertificate h m cert =
     (case cert of
        None \<Rightarrow> NilDereference
      | Some c \<Rightarrow>
          let certID = cert_ID (certificates h c) in
          if length certID = 0 then Return (m, 0, Some (EmptyIdentifier K_cert))
          else if certID |\<in>| fmdom (certificatesByID m)
            then Return (m, 0, Some (AlreadyExists K_cert certID))
          else
            let m' = m\<lparr>certificatesByID := fmupd certID c (certificatesByID m)\<rparr>
            in Return (m', len (certificatesByID m'), None))"

definition GetCertificateByID :: "MemoryStore \<Rightarrow> string \<Rightarrow> ptr" where
  "GetCertificateByID m ident = fmlookup (certificatesByID m) ident"

text \<open>
  \<open>reflect.DeepEqual\<close> on two \<open>[]byte\<close> values: both nil or both non-nil, the same length
  and the same elements. A nil slice and an empty non-nil slice are not deeply equal.
\<close>

definition DeepEqual :: "bytes \<Rightarrow> bytes \<Rightarrow> bool" where
  "DeepEqual x y = (x = y)"

text \<open>The bytes a slice holds; a nil slice holds none.\<close>

definition slice_bytes :: "bytes \<Rightarrow> 8 word list" where
  "slice_bytes b = (case b of None \<Rightarrow> [] | Some bs \<Rightarrow> bs)"

text \<open>
  Go does not specify the order in which \<open>range\<close> visits a map. The order of one run is a
  parameter: a list \<open>ks\<close> that holds every key of the map once.
\<close>

definition range_order :: "('k, 'v) fmap \<Rightarrow> 'k list \<Rightarrow> bool" where
  "range_order mp ks = (distinct ks \<and> set ks = fmdom' mp)"

fun scan_DER :: "('a, 'o, 'z, 'h, 'c) heap \<Rightarrow> (string, addr) fmap \<Rightarrow> bytes \<Rightarrow> string list \<Rightarrow> ptr" where
  "scan_DER h mp der [] = None"
| "scan_DER h mp der (k # ks) =
     (case fmlookup mp k of
        None \<Rightarrow> scan_DER h mp der ks
      | Some c \<Rightarrow> if DeepEqual (cert_DER (certificates h c)) der then Some c
                  else scan_DER h mp der ks)"

definition GetCertificateByDER ::
  "('a, 'o, 'z, 'h, 'c) heap \<Rightarrow> MemoryStore \<Rightarrow> string list \<Rightarrow> bytes \<Rightarrow> ptr" where
  "GetCertificateByDER h m ks der = scan_DER h (certificatesByID m) der ks"

definition RevokeCertificate ::
  "('a, 'o, 'z, 'h, 'c) heap \<Rightarrow> MemoryStore \<Rightarrow> ptr \<Rightarrow> MemoryStore outcome" where
  "RevokeCertificate h m cert =
     (case cert of
        None \<Rightarrow> NilDereference
      | Some c \<Rightarrow>
          Return (m\<lparr>certificatesByID := fmdrop (cert_ID (certificates h c)) (certificatesByID m)\<rparr>))"

subsection \<open>A status computation and a memory to run the operations on\<close>

text \<open>
  Modelled from the spec: \<open>core.Order.GetStatus\<close> is missing from the file. The spec
  describes the status computation as a pure function of the order's state and the clock
  that derives the status from the order's expiry against the current time; this instance
  reports \<open>expired\<close> once the clock has passed the order's expiry and \<open>pending\<close> before.
  It only instantiates the parameter of \<open>GetOrderByID\<close> at concrete inputs.
\<close>

record TimedOrder = Order +
  order_ExpiresDate :: int

definition sample_GetStatus ::
  "('a, unit TimedOrder_ext, 'z, 'h, 'c) heap \<Rightarrow> addr \<Rightarrow> int \<Rightarrow> string + string" where
  "sample_GetStatus h p now =
     (if order_ExpiresDate (orders h p) < now then Inr ''expired'' else Inr ''pending'')"

text \<open>
  A memory with a few objects of every kind. Account 1 has no key, account 2 and object 0
  of every other kind have an empty ID; certificate 3 carries an empty, non-nil DER slice.
  Every order expires one hour (3600 seconds) after time 0.
\<close>

definition sample_heap :: "(unit, unit TimedOrder_ext, unit, unit, unit) heap" where
  "sample_heap =
     \<lparr>accounts = (\<lambda>a. \<lparr>acct_ID = (if a = 2 then [] else ''acct1''),
                        acct_Key = (if a = 1 then None else Some 7)\<rparr>),
      orders = (\<lambda>p. \<lparr>order_readers = 0, order_ID = (if p = 0 then [] else ''order1''),
                      order_Status = ''pending'', order_ExpiresDate = 3600\<rparr>),
      authorizations = (\<lambda>p. \<lparr>authz_readers = 0, authz_ID = (if p = 0 then [] else ''authz1'')\<rparr>),
      challenges = (\<lambda>p. \<lparr>chal_readers = 0, chal_ID = (if p = 0 then [] else ''chal1'')\<rparr>),
      certificates = (\<lambda>c. \<lparr>cert_ID = (if c = 0 then [] else if c = 3 then ''cert3'' else ''cert1''),
                            cert_DER = (if c = 3 then Some [] else Some [48, 130, 1])\<rparr>)\<rparr>"

section \<open>Basic facts\<close>

lemma order_RUnlock_RLock: "order_RUnlock (order_RLock h p) p = h"
  by (simp add: order_RUnlock_def order_RLock_def)

lemma authz_RUnlock_RLock: "authz_RUnlock (authz_RLock h p) p = h"
  by (simp add: authz_RUnlock_def authz_RLock_def)

lemma chal_RUnlock_RLock: "chal_RUnlock (chal_RLock h p) p = h"
  by (simp add: chal_RUnlock_def chal_RLock_def)

lemma order_ID_RLock: "order_ID (orders (order_RLock h p) q) = order_ID (orders h q)"
  by (simp add: order_RLock_def)

lemma authz_ID_RLock: "authz_ID (authorizations (authz_RLock h p) q) = authz_ID (authorizations h q)"
  by (simp add: authz_RLock_def)

lemma chal_ID_RLock: "chal_ID (challenges (chal_RLock h p) q) = chal_ID (challenges h q)"
  by (simp add: chal_RLock_def)

lemma len_fmempty: "len fmempty = 0"
  by (simp add: len_def)

lemma len_fmupd: "k |\<notin>| fmdom mp \<Longrightarrow> len (fmupd k v mp) = len mp + 1"
  by (simp add: len_def fcard_finsert_disjoint)

text \<open>
  The \<open>Add\<close> operations on a non-nil pointer, with the read lock that is taken and
  released again cancelled out. \<open>AddOrder\<close> and \<open>AddAuthorization\<close> return on an empty
  ID before they reach \<open>RUnlock\<close>; \<open>AddChallenge\<close> releases the lock first.
\<close>

lemma AddAccount_Some:
  "AddAccount h m (Some a) =
     (if acct_ID (accounts h a) = [] then Return (m, 0, Some (EmptyIdentifier K_account))
      else if acct_Key (accounts h a) = None then Return (m, 0, Some MissingRequiredField)
      else if acct_ID (accounts h a) |\<in>| fmdom (accountsByID m)
        then Return (m, 0, Some (AlreadyExists K_account (acct_ID (accounts h a))))
      else Return (m\<lparr>accountsByID := fmupd (acct_ID (accounts h a)) (Some a) (accountsByID m)\<rparr>,
                   len (accountsByID m) + 1, None))"
  by (simp add: AddAccount_def Let_def len_fmupd)

lemma AddOrder_Some:
  "AddOrder h m (Some p) =
     (if order_ID (orders h p) = []
        then Return (order_RLock h p, m, 0, Some (EmptyIdentifier K_order))
      else if order_ID (orders h p) |\<in>| fmdom (ordersByID m)
        then Return (h, m, 0, Some (AlreadyExists K_order (order_ID (orders h p))))
      else Return (h, m\<lparr>ordersByID := fmupd (order_ID (orders h p)) p (ordersByID m)\<rparr>,
                   len (ordersByID m) + 1, None))"
  by (simp add: AddOrder_def Let_def len_fmupd order_ID_RLock order_RUnlock_RLock)

lemma AddAuthorization_Some:
  "AddAuthorization h m (Some p) =
     (if authz_ID (authorizations h p) = []
        then Return (authz_RLock h p, m, 0, Some (EmptyIdentifier K_authz))
      else if authz_ID (authorizations h p) |\<in>| fmdom (authorizationsByID m)
        then Return (h, m, 0, Some (AlreadyExists K_authz (authz_ID (authorizations h p))))
      else Return (h, m\<lparr>authorizationsByID := fmupd (authz_ID (authorizations h p)) p (authorizationsByID m)\<rparr>,
                   len (authorizationsByID m) + 1, None))"
  by (simp add: AddAuthorization_def Let_def len_fmupd authz_ID_RLock authz_RUnlock_RLock)

lemma AddChallenge_Some:
  "AddChallenge h m (Some p) =
     (if chal_ID (challenges h p) = []
        then Return (h, m, 0, Some (EmptyIdentifier K_challenge))
      else if chal_ID (challenges h p) |\<in>| fmdom (challengesByID m)
        then Return (h, m, 0, Some (AlreadyExists K_challenge (chal_ID (challenges h p))))
      else Return (h, m\<lparr>challengesByID := fmupd (chal_ID (challenges h p)) p (challengesByID m)\<rparr>,
                   len (challengesByID m) + 1, None))"
  by (simp add: AddChallenge_def Let_def len_fmupd chal_ID_RLock chal_RUnlock_RLock)

lemma AddCertificate_Some:
  "AddCertificate h m (Some c) =
     (if cert_ID (certificates h c) = [] then Return (m, 0, Some (EmptyIdentifier K_cert))
      else if cert_ID (certificates h c) |\<in>| fmdom (certificatesByID m)
        then Return (m, 0, Some (AlreadyExists K_cert (cert_ID (certificates h c))))
      else Return (m\<lparr>certificatesByID := fmupd (cert_ID (certificates h c)) c (certificatesByID m)\<rparr>,
                   len (certificatesByID m) + 1, None))"
  by (simp add: AddCertificate_def Let_def len_fmupd)

lemma Add_None:
  "AddAccount h m None = NilDereference" "AddOrder h m None = NilDereference"
  "AddAuthorization h m None = NilDereference" "AddChallenge h m None = NilDereference"
  "AddCertificate h m None = NilDereference"
  by (simp_all add: AddAccount_def AddOrder_def AddAuthorization_def AddChallenge_def AddCertificate_def)

text \<open>
  What \<open>GetOrderByID\<close> writes, and how a call of it ends: it panics exactly when the
  order is stored and the status computation fails, it waits for ever exactly when the
  computation succeeds and a read lock is held on the order, and it returns otherwise.
\<close>

lemma order_set_Status_frame:
  "accounts (order_set_Status h p st) = accounts h"
  "authorizations (order_set_Status h p st) = authorizations h"
  "challenges (order_set_Status h p st) = challenges h"
  "certificates (order_set_Status h p st) = certificates h"
  "q \<noteq> p \<Longrightarrow> orders (order_set_Status h p st) q = orders h q"
  "orders (order_set_Status h p st) p = (orders h p)\<lparr>order_Status := st\<rparr>"
  by (simp_all add: order_set_Status_def)

lemma order_set_Status_twice:
  "order_set_Status (order_set_Status h p s1) p s2 = order_set_Status h p s2"
  by (simp add: order_set_Status_def)

lemma GetOrderByID_absent:
  "fmlookup (ordersByID m) ident = None \<Longrightarrow> GetOrderByID GetStatus h m ident = Return (h, None)"
  by (simp add: GetOrderByID_def)

lemma GetOrderByID_stored:
  "fmlookup (ordersByID m) ident = Some p \<Longrightarrow>
   GetOrderByID GetStatus h m ident =
     (case GetStatus h p (clk m) of
        Inl err \<Rightarrow> Panic err
      | Inr st \<Rightarrow> if order_readers (orders h p) = 0 then Return (order_set_Status h p st, Some p)
                  else Blocked)"
  by (simp add: GetOrderByID_def split: sum.splits)

lemma GetOrderByID_Panic_iff:
  "GetOrderByID GetStatus h m ident = Panic err \<longleftrightarrow>
     (\<exists>p. fmlookup (ordersByID m) ident = Some p \<and> GetStatus h p (clk m) = Inl err)"
  by (auto simp: GetOrderByID_def split: option.splits sum.splits)

lemma GetOrderByID_Return_iff:
  "(\<exists>r. GetOrderByID GetStatus h m ident = Return r) \<longleftrightarrow>
     (fmlookup (ordersByID m) ident = None
      \<or> (\<exists>p st. fmlookup (ordersByID m) ident = Some p \<and> GetStatus h p (clk m) = Inr st
            \<and> order_readers (orders h p) = 0))"
  by (auto simp: GetOrderByID_def split: option.splits sum.splits)

lemma GetOrderByID_Blocked_iff:
  "GetOrderByID GetStatus h m ident = Blocked \<longleftrightarrow>
     (\<exists>p st. fmlookup (ordersByID m) ident = Some p \<and> GetStatus h p (clk m) = Inr st
        \<and> order_readers (orders h p) \<noteq> 0)"
  by (auto simp: GetOrderByID_def split: option.splits sum.splits)

text \<open>The scan returns a certificate it has compared equal, and skips none that is.\<close>

lemma scan_DER_Some:
  "scan_DER h mp der ks = Some c \<Longrightarrow>
     \<exists>k. k \<in> set ks \<and> fmlookup mp k = Some c \<and> cert_DER (certificates h c) = der"
proof (induction ks)
  case Nil
  then show ?case by simp
next
  case (Cons k ks)
  then show ?case
    by (cases "fmlookup mp k") (auto simp: DeepEqual_def split: if_splits)
qed

lemma scan_DER_None:
  "scan_DER h mp der ks = None \<Longrightarrow> k \<in> set ks \<Longrightarrow> fmlookup mp k = Some c \<Longrightarrow>
     cert_DER (certificates h c) \<noteq> der"
proof (induction ks)
  case Nil
  then show ?case by simp
next
  case (Cons k' ks)
  then show ?case
    by (cases "fmlookup mp k'") (auto simp: DeepEqual_def split: if_splits)
qed

section \<open>Adding entities\<close>

text \<open>
  Claim C8. For every entity kind, \<open>Add\<close> of an entity whose ID is empty returns the
  count 0 and the "must have a non-empty ID" error, whatever its other fields hold; and
  \<open>AddAccount\<close> of an account with a non-empty ID and a nil key returns 0 and the "must
  not have a nil Key" error. (For an order and an authorization the call returns with the
  entity's read lock still held.)
\<close>

theorem Add_rejects_empty_ID_and_nil_Key:
  "(acct_ID (accounts h a) = [] \<longrightarrow>
      AddAccount h m (Some a) = Return (m, 0, Some (EmptyIdentifier K_account)))
   \<and> (order_ID (orders h p) = [] \<longrightarrow>
      AddOrder h m (Some p) = Return (order_RLock h p, m, 0, Some (EmptyIdentifier K_order)))
   \<and> (authz_ID (authorizations h z) = [] \<longrightarrow>
      AddAuthorization h m (Some z) = Return (authz_RLock h z, m, 0, Some (EmptyIdentifier K_authz)))
   \<and> (chal_ID (challenges h q) = [] \<longrightarrow>
      AddChallenge h m (Some q) = Return (h, m, 0, Some (EmptyIdentifier K_challenge)))
   \<and> (cert_ID (certificates h c) = [] \<longrightarrow>
      AddCertificate h m (Some c) = Return (m, 0, Some (EmptyIdentifier K_cert)))
   \<and> (acct_ID (accounts h a) \<noteq> [] \<and> acct_Key (accounts h a) = None \<longrightarrow>
      AddAccount h m (Some a) = Return (m, 0, Some MissingRequiredField))"
  by (simp add: AddAccount_Some AddOrder_Some AddAuthorization_Some AddChallenge_Some
      AddCertificate_Some)

theorem Add_rejects_empty_ID_and_nil_Key_witness:
  "acct_ID (accounts sample_heap 2) = [] \<and> order_ID (orders sample_heap 0) = []
   \<and> authz_ID (authorizations sample_heap 0) = [] \<and> chal_ID (challenges sample_heap 0) = []
   \<and> cert_ID (certificates sample_heap 0) = []
   \<and> acct_ID (accounts sample_heap 1) = ''acct1'' \<and> acct_Key (accounts sample_heap 1) = None
   \<and> AddAccount sample_heap (NewMemoryStore 0) (Some 2)
     = Return (NewMemoryStore 0, 0, Some (EmptyIdentifier K_account))
   \<and> AddOrder sample_heap (NewMemoryStore 0) (Some 0)
     = Return (order_RLock sample_heap 0, NewMemoryStore 0, 0, Some (EmptyIdentifier K_order))
   \<and> AddAuthorization sample_heap (NewMemoryStore 0) (Some 0)
     = Return (authz_RLock sample_heap 0, NewMemoryStore 0, 0, Some (EmptyIdentifier K_authz))
   \<and> AddChallenge sample_heap (NewMemoryStore 0) (Some 0)
     = Return (sample_heap, NewMemoryStore 0, 0, Some (EmptyIdentifier K_challenge))
   \<and> AddCertificate sample_heap (NewMemoryStore 0) (Some 0)
     = Return (NewMemoryStore 0, 0, Some (EmptyIdentifier K_cert))
   \<and> AddAccount sample_heap (NewMemoryStore 0) (Some 1)
     = Return (NewMemoryStore 0, 0, Some MissingRequiredField)"
  using Add_rejects_empty_ID_and_nil_Key [where h = sample_heap and m = "NewMemoryStore 0"
      and a = 2 and p = 0 and z = 0 and q = 0 and c = 0]
    Add_rejects_empty_ID_and_nil_Key [where h = sample_heap and m = "NewMemoryStore 0"
      and a = 1 and p = 0 and z = 0 and q = 0 and c = 0]
  by (simp add: sample_heap_def)

text \<open>
  Claim C9. For every entity kind, an \<open>Add\<close> that returns no error returns the size of
  the collection after the insertion, which is one more than its size before the call.
\<close>

theorem Add_returns_new_size:
  "(AddAccount h m a = Return (ma, na, None) \<longrightarrow>
      na = len (accountsByID m) + 1 \<and> na = len (accountsByID ma))
   \<and> (AddOrder h m p = Return (ho, mo, no, None) \<longrightarrow>
      no = len (ordersByID m) + 1 \<and> no = len (ordersByID mo))
   \<and> (AddAuthorization h m z = Return (hz, mz, nz, None) \<longrightarrow>
      nz = len (authorizationsByID m) + 1 \<and> nz = len (authorizationsByID mz))
   \<and> (AddChallenge h m q = Return (hq, mq, nq, None) \<longrightarrow>
      nq = len (challengesByID m) + 1 \<and> nq = len (challengesByID mq))
   \<and> (AddCertificate h m c = Return (mc, nc, None) \<longrightarrow>
      nc = len (certificatesByID m) + 1 \<and> nc = len (certificatesByID mc))"
proof -
  have A: "AddAccount h m a = Return (ma, na, None) \<longrightarrow>
      na = len (accountsByID m) + 1 \<and> na = len (accountsByID ma)"
    by (cases a) (auto simp: AddAccount_Some Add_None len_fmupd split: if_splits)
  have O: "AddOrder h m p = Return (ho, mo, no, None) \<longrightarrow>
      no = len (ordersByID m) + 1 \<and> no = len (ordersByID mo)"
    by (cases p) (auto simp: AddOrder_Some Add_None len_fmupd split: if_splits)
  have Z: "AddAuthorization h m z = Return (hz, mz, nz, None) \<longrightarrow>
      nz = len (authorizationsByID m) + 1 \<and> nz = len (authorizationsByID mz)"
    by (cases z) (auto simp: AddAuthorization_Some Add_None len_fmupd split: if_splits)
  have Q: "AddChallenge h m q = Return (hq, mq, nq, None) \<longrightarrow>
      nq = len (challengesByID m) + 1 \<and> nq = len (challengesByID mq)"
    by (cases q) (auto simp: AddChallenge_Some Add_None len_fmupd split: if_splits)
  have C: "AddCertificate h m c = Return (mc, nc, None) \<longrightarrow>
      nc = len (certificatesByID m) + 1 \<and> nc = len (certificatesByID mc)"
    by (cases c) (auto simp: AddCertificate_Some Add_None len_fmupd split: if_splits)
  show ?thesis by (intro conjI A O Z Q C)
qed

theorem Add_returns_new_size_witness:
  "AddAccount sample_heap (NewMemoryStore 0) (Some 0)
     = Return ((NewMemoryStore 0)\<lparr>accountsByID := fmupd ''acct1'' (Some 0) fmempty\<rparr>, 1, None)
   \<and> AddOrder sample_heap (NewMemoryStore 0) (Some 1)
     = Return (sample_heap, (NewMemoryStore 0)\<lparr>ordersByID := fmupd ''order1'' 1 fmempty\<rparr>, 1, None)
   \<and> AddAuthorization sample_heap (NewMemoryStore 0) (Some 1)
     = Return (sample_heap, (NewMemoryStore 0)\<lparr>authorizationsByID := fmupd ''authz1'' 1 fmempty\<rparr>, 1, None)
   \<and> AddChallenge sample_heap (NewMemoryStore 0) (Some 1)
     = Return (sample_heap, (NewMemoryStore 0)\<lparr>challengesByID := fmupd ''chal1'' 1 fmempty\<rparr>, 1, None)
   \<and> AddCertificate sample_heap ((NewMemoryStore 0)\<lparr>certificatesByID := fmupd ''cert3'' 3 fmempty\<rparr>) (Some 1)
     = Return ((NewMemoryStore 0)\<lparr>certificatesByID := fmupd ''cert1'' 1 (fmupd ''cert3'' 3 fmempty)\<rparr>, 2, None)
   \<and> len (accountsByID (NewMemoryStore 0)) = 0
   \<and> len (fmupd ''acct1'' (Some (0::nat)) fmempty) = 1
   \<and> len (fmupd ''cert3'' (3::nat) fmempty) = 1
   \<and> len (fmupd ''cert1'' 1 (fmupd ''cert3'' (3::nat) fmempty)) = 2"
  using Add_returns_new_size [where h = sample_heap and m = "NewMemoryStore 0"
      and a = "Some 0" and ma = "(NewMemoryStore 0)\<lparr>accountsByID := fmupd ''acct1'' (Some 0) fmempty\<rparr>" and na = 1
      and p = "Some 1" and ho = sample_heap and mo = "(NewMemoryStore 0)\<lparr>ordersByID := fmupd ''order1'' 1 fmempty\<rparr>" and no = 1
      and z = "Some 1" and hz = sample_heap and mz = "(NewMemoryStore 0)\<lparr>authorizationsByID := fmupd ''authz1'' 1 fmempty\<rparr>" and nz = 1
      and q = "Some 1" and hq = sample_heap and mq = "(NewMemoryStore 0)\<lparr>challengesByID := fmupd ''chal1'' 1 fmempty\<rparr>" and nq = 1
      and c = None]
    Add_returns_new_size [where h = sample_heap and m = "(NewMemoryStore 0)\<lparr>certificatesByID := fmupd ''cert3'' 3 fmempty\<rparr>"
      and a = None and p = None and z = None and q = None
      and c = "Some 1" and mc = "(NewMemoryStore 0)\<lparr>certificatesByID := fmupd ''cert1'' 1 (fmupd ''cert3'' 3 fmempty)\<rparr>" and nc = 2]
  by (simp add: sample_heap_def NewMemoryStore_def AddAccount_Some AddOrder_Some AddAuthorization_Some
      AddChallenge_Some AddCertificate_Some Add_None len_fmempty len_fmupd)

text \<open>
  Claim C10. For every entity kind, an \<open>Add\<close> that returns an error returns the count 0
  and the store it was called on: the clock and all five collections are the same as
  before.
\<close>

theorem Add_error_leaves_store:
  "(AddAccount h m a = Return (ma, na, Some ea) \<longrightarrow> na = 0 \<and> ma = m)
   \<and> (AddOrder h m p = Return (ho, mo, no, Some eo) \<longrightarrow> no = 0 \<and> mo = m)
   \<and> (AddAuthorization h m z = Return (hz, mz, nz, Some ez) \<longrightarrow> nz = 0 \<and> mz = m)
   \<and> (AddChallenge h m q = Return (hq, mq, nq, Some eq) \<longrightarrow> nq = 0 \<and> mq = m)
   \<and> (AddCertificate h m c = Return (mc, nc, Some ec) \<longrightarrow> nc = 0 \<and> mc = m)"
proof -
  have A: "AddAccount h m a = Return (ma, na, Some ea) \<longrightarrow> na = 0 \<and> ma = m"
    by (cases a) (auto simp: AddAccount_Some Add_None split: if_splits)
  have O: "AddOrder h m p = Return (ho, mo, no, Some eo) \<longrightarrow> no = 0 \<and> mo = m"
    by (cases p) (auto simp: AddOrder_Some Add_None split: if_splits)
  have Z: "AddAuthorization h m z = Return (hz, mz, nz, Some ez) \<longrightarrow> nz = 0 \<and> mz = m"
    by (cases z) (auto simp: AddAuthorization_Some Add_None split: if_splits)
  have Q: "AddChallenge h m q = Return (hq, mq, nq, Some eq) \<longrightarrow> nq = 0 \<and> mq = m"
    by (cases q) (auto simp: AddChallenge_Some Add_None split: if_splits)
  have C: "AddCertificate h m c = Return (mc, nc, Some ec) \<longrightarrow> nc = 0 \<and> mc = m"
    by (cases c) (auto simp: AddCertificate_Some Add_None split: if_splits)
  show ?thesis by (intro conjI A O Z Q C)
qed

theorem Add_error_leaves_store_witness:
  "AddAccount sample_heap ((NewMemoryStore 0)\<lparr>accountsByID := fmupd ''acct1'' (Some 0) fmempty\<rparr>) (Some 3)
     = Return ((NewMemoryStore 0)\<lparr>accountsByID := fmupd ''acct1'' (Some 0) fmempty\<rparr>, 0,
               Some (AlreadyExists K_account ''acct1''))
   \<and> AddOrder sample_heap (NewMemoryStore 0) (Some 0)
     = Return (order_RLock sample_heap 0, NewMemoryStore 0, 0, Some (EmptyIdentifier K_order))
   \<and> AddAuthorization sample_heap (NewMemoryStore 0) (Some 0)
     = Return (authz_RLock sample_heap 0, NewMemoryStore 0, 0, Some (EmptyIdentifier K_authz))
   \<and> AddChallenge sample_heap (NewMemoryStore 0) (Some 0)
     = Return (sample_heap, NewMemoryStore 0, 0, Some (EmptyIdentifier K_challenge))
   \<and> AddCertificate sample_heap ((NewMemoryStore 0)\<lparr>certificatesByID := fmupd ''cert1'' 1 fmempty\<rparr>) (Some 2)
     = Return ((NewMemoryStore 0)\<lparr>certificatesByID := fmupd ''cert1'' 1 fmempty\<rparr>, 0,
               Some (AlreadyExists K_cert ''cert1''))"
  using Add_error_leaves_store [where h = sample_heap
      and m = "(NewMemoryStore 0)\<lparr>accountsByID := fmupd ''acct1'' (Some 0) fmempty\<rparr>"
      and a = "Some 3" and na = 0 and ea = "AlreadyExists K_account ''acct1''"
      and ma = "(NewMemoryStore 0)\<lparr>accountsByID := fmupd ''acct1'' (Some 0) fmempty\<rparr>"
      and p = None and z = None and q = None and c = None]
    Add_error_leaves_store [where h = sample_heap and m = "NewMemoryStore 0" and a = None
      and p = "Some 0" and ho = "order_RLock sample_heap 0" and mo = "NewMemoryStore 0" and no = 0
      and eo = "EmptyIdentifier K_order"
      and z = "Some 0" and hz = "authz_RLock sample_heap 0" and mz = "NewMemoryStore 0" and nz = 0
      and ez = "EmptyIdentifier K_authz"
      and q = "Some 0" and hq = sample_heap and mq = "NewMemoryStore 0" and nq = 0
      and eq = "EmptyIdentifier K_challenge" and c = None]
    Add_error_leaves_store [where h = sample_heap
      and m = "(NewMemoryStore 0)\<lparr>certificatesByID := fmupd ''cert1'' 1 fmempty\<rparr>"
      and a = None and p = None and z = None and q = None
      and c = "Some 2" and nc = 0 and ec = "AlreadyExists K_cert ''cert1''"
      and mc = "(NewMemoryStore 0)\<lparr>certificatesByID := fmupd ''cert1'' 1 fmempty\<rparr>"]
  by (simp add: sample_heap_def NewMemoryStore_def AddAccount_Some AddOrder_Some AddAuthorization_Some
      AddChallenge_Some AddCertificate_Some Add_None)

section \<open>Adding, then reading back\<close>

text \<open>
  Claim C2, as the code has it. For an account, authorization, challenge or certificate
  with a non-empty ID (an account also with a non-nil key) whose ID is not yet a key of its
  collection, \<open>Add\<close> returns no error and the \<open>Get\<close> of that ID then returns the very
  pointer that was added; nothing in memory has changed. For an order, \<open>AddOrder\<close> returns
  no error as well, and \<open>GetOrderByID\<close> of that ID returns the pointer that was added when
  the status computation succeeds and no read lock is held on the order, after writing the
  computed status into the order; when the status computation fails it panics.
\<close>

theorem Add_then_Get:
  "(acct_ID (accounts h a) \<noteq> [] \<and> acct_Key (accounts h a) \<noteq> None
      \<and> acct_ID (accounts h a) |\<notin>| fmdom (accountsByID m) \<longrightarrow>
      (\<exists>m' n. AddAccount h m (Some a) = Return (m', n, None)
         \<and> GetAccountByID m' (acct_ID (accounts h a)) = Some a))
   \<and> (order_ID (orders h p) \<noteq> [] \<and> order_ID (orders h p) |\<notin>| fmdom (ordersByID m) \<longrightarrow>
      (\<exists>m' n. AddOrder h m (Some p) = Return (h, m', n, None)
         \<and> (\<forall>st. GetStatus h p (clk m') = Inr st \<and> order_readers (orders h p) = 0 \<longrightarrow>
               GetOrderByID GetStatus h m' (order_ID (orders h p))
                 = Return (order_set_Status h p st, Some p))
         \<and> (\<forall>err. GetStatus h p (clk m') = Inl err \<longrightarrow>
               GetOrderByID GetStatus h m' (order_ID (orders h p)) = Panic err)))
   \<and> (authz_ID (authorizations h z) \<noteq> []
      \<and> authz_ID (authorizations h z) |\<notin>| fmdom (authorizationsByID m) \<longrightarrow>
      (\<exists>m' n. AddAuthorization h m (Some z) = Return (h, m', n, None)
         \<and> GetAuthorizationByID m' (authz_ID (authorizations h z)) = Some z))
   \<and> (chal_ID (challenges h q) \<noteq> [] \<and> chal_ID (challenges h q) |\<notin>| fmdom (challengesByID m) \<longrightarrow>
      (\<exists>m' n. AddChallenge h m (Some q) = Return (h, m', n, None)
         \<and> GetChallengeByID m' (chal_ID (challenges h q)) = Some q))
   \<and> (cert_ID (certificates h c) \<noteq> [] \<and> cert_ID (certificates h c) |\<notin>| fmdom (certificatesByID m) \<longrightarrow>
      (\<exists>m' n. AddCertificate h m (Some c) = Return (m', n, None)
         \<and> GetCertificateByID m' (cert_ID (certificates h c)) = Some c))"
proof -
  have A: "acct_ID (accounts h a) \<noteq> [] \<and> acct_Key (accounts h a) \<noteq> None
      \<and> acct_ID (accounts h a) |\<notin>| fmdom (accountsByID m) \<longrightarrow>
      (\<exists>m' n. AddAccount h m (Some a) = Return (m', n, None)
         \<and> GetAccountByID m' (acct_ID (accounts h a)) = Some a)"
    by (simp add: AddAccount_Some GetAccountByID_def index_def)
  have O: "order_ID (orders h p) \<noteq> [] \<and> order_ID (orders h p) |\<notin>| fmdom (ordersByID m) \<longrightarrow>
      (\<exists>m' n. AddOrder h m (Some p) = Return (h, m', n, None)
         \<and> (\<forall>st. GetStatus h p (clk m') = Inr st \<and> order_readers (orders h p) = 0 \<longrightarrow>
               GetOrderByID GetStatus h m' (order_ID (orders h p))
                 = Return (order_set_Status h p st, Some p))
         \<and> (\<forall>err. GetStatus h p (clk m') = Inl err \<longrightarrow>
               GetOrderByID GetStatus h m' (order_ID (orders h p)) = Panic err))"
    by (simp add: AddOrder_Some GetOrderByID_def)
  have Z: "authz_ID (authorizations h z) \<noteq> []
      \<and> authz_ID (authorizations h z) |\<notin>| fmdom (authorizationsByID m) \<longrightarrow>
      (\<exists>m' n. AddAuthorization h m (Some z) = Return (h, m', n, None)
         \<and> GetAuthorizationByID m' (authz_ID (authorizations h z)) = Some z)"
    by (simp add: AddAuthorization_Some GetAuthorizationByID_def)
  have Q: "chal_ID (challenges h q) \<noteq> [] \<and> chal_ID (challenges h q) |\<notin>| fmdom (challengesByID m) \<longrightarrow>
      (\<exists>m' n. AddChallenge h m (Some q) = Return (h, m', n, None)
         \<and> GetChallengeByID m' (chal_ID (challenges h q)) = Some q)"
    by (simp add: AddChallenge_Some GetChallengeByID_def)
  have C: "cert_ID (certificates h c) \<noteq> [] \<and> cert_ID (certificates h c) |\<notin>| fmdom (certificatesByID m) \<longrightarrow>
      (\<exists>m' n. AddCertificate h m (Some c) = Return (m', n, None)
         \<and> GetCertificateByID m' (cert_ID (certificates h c)) = Some c)"
    by (simp add: AddCertificate_Some GetCertificateByID_def)
  show ?thesis by (intro conjI A O Z Q C)
qed

theorem Add_then_Get_witness:
  "acct_ID (accounts sample_heap 0) = ''acct1'' \<and> acct_Key (accounts sample_heap 0) = Some 7
   \<and> ''acct1'' |\<notin>| fmdom (accountsByID (NewMemoryStore 0))
   \<and> order_ID (orders sample_heap 1) = ''order1'' \<and> ''order1'' |\<notin>| fmdom (ordersByID (NewMemoryStore 0))
   \<and> order_readers (orders sample_heap 1) = 0 \<and> sample_GetStatus sample_heap 1 0 = Inr ''pending''
   \<and> authz_ID (authorizations sample_heap 1) = ''authz1''
   \<and> ''authz1'' |\<notin>| fmdom (authorizationsByID (NewMemoryStore 0))
   \<and> chal_ID (challenges sample_heap 1) = ''chal1'' \<and> ''chal1'' |\<notin>| fmdom (challengesByID (NewMemoryStore 0))
   \<and> cert_ID (certificates sample_heap 1) = ''cert1''
   \<and> ''cert1'' |\<notin>| fmdom (certificatesByID (NewMemoryStore 0))
   \<and> AddAccount sample_heap (NewMemoryStore 0) (Some 0)
     = Return ((NewMemoryStore 0)\<lparr>accountsByID := fmupd ''acct1'' (Some 0) fmempty\<rparr>, 1, None)
   \<and> GetAccountByID ((NewMemoryStore 0)\<lparr>accountsByID := fmupd ''acct1'' (Some 0) fmempty\<rparr>) ''acct1'' = Some 0
   \<and> AddOrder sample_heap (NewMemoryStore 0) (Some 1)
     = Return (sample_heap, (NewMemoryStore 0)\<lparr>ordersByID := fmupd ''order1'' 1 fmempty\<rparr>, 1, None)
   \<and> GetOrderByID sample_GetStatus sample_heap
        ((NewMemoryStore 0)\<lparr>ordersByID := fmupd ''order1'' 1 fmempty\<rparr>) ''order1''
     = Return (order_set_Status sample_heap 1 ''pending'', Some 1)
   \<and> AddAuthorization sample_heap (NewMemoryStore 0) (Some 1)
     = Return (sample_heap, (NewMemoryStore 0)\<lparr>authorizationsByID := fmupd ''authz1'' 1 fmempty\<rparr>, 1, None)
   \<and> GetAuthorizationByID ((NewMemoryStore 0)\<lparr>authorizationsByID := fmupd ''authz1'' 1 fmempty\<rparr>) ''authz1'' = Some 1
   \<and> AddChallenge sample_heap (NewMemoryStore 0) (Some 1)
     = Return (sample_heap, (NewMemoryStore 0)\<lparr>challengesByID := fmupd ''chal1'' 1 fmempty\<rparr>, 1, None)
   \<and> GetChallengeByID ((NewMemoryStore 0)\<lparr>challengesByID := fmupd ''chal1'' 1 fmempty\<rparr>) ''chal1'' = Some 1
   \<and> AddCertificate sample_heap (NewMemoryStore 0) (Some 1)
     = Return ((NewMemoryStore 0)\<lparr>certificatesByID := fmupd ''cert1'' 1 fmempty\<rparr>, 1, None)
   \<and> GetCertificateByID ((NewMemoryStore 0)\<lparr>certificatesByID := fmupd ''cert1'' 1 fmempty\<rparr>) ''cert1'' = Some 1"
  using Add_then_Get [where h = sample_heap and m = "NewMemoryStore 0" and a = 0 and p = 1
      and z = 1 and q = 1 and c = 1 and GetStatus = sample_GetStatus]
  by (simp add: sample_heap_def sample_GetStatus_def NewMemoryStore_def AddAccount_Some AddOrder_Some
      AddAuthorization_Some AddChallenge_Some AddCertificate_Some len_fmempty
      GetAccountByID_def index_def GetOrderByID_def GetAuthorizationByID_def GetChallengeByID_def
      GetCertificateByID_def)

text \<open>
  The claim as written promises a reference back for every kind. An order whose status
  computation fails is added without error, and reading it back panics.
\<close>

theorem Add_then_GetOrderByID_counterexample:
  "order_ID (orders sample_heap 1) = ''order1''
   \<and> ''order1'' |\<notin>| fmdom (ordersByID (NewMemoryStore 0))
   \<and> AddOrder sample_heap (NewMemoryStore 0) (Some 1)
     = Return (sample_heap, (NewMemoryStore 0)\<lparr>ordersByID := fmupd ''order1'' 1 fmempty\<rparr>, 1, None)
   \<and> GetOrderByID (\<lambda>h p now. Inl ''invalid'') sample_heap
        ((NewMemoryStore 0)\<lparr>ordersByID := fmupd ''order1'' 1 fmempty\<rparr>) ''order1''
     = Panic ''invalid''"
  by (simp add: sample_heap_def NewMemoryStore_def AddOrder_Some len_fmempty GetOrderByID_def)

section \<open>Adding under an ID that is taken\<close>

text \<open>
  Claim C3, as the code has it. After an \<open>Add\<close> has returned no error for an entity with
  ID \<open>i\<close>, an \<open>Add\<close> of any entity of that kind whose ID is \<open>i\<close> too returns the count 0
  and an error, and leaves the store as it was, the first entity still stored under \<open>i\<close>.
  The error is "already exists", except for an account whose key is nil: \<open>AddAccount\<close>
  tests the key before it looks the ID up and returns the "nil Key" error.
\<close>

theorem Add_twice:
  "(AddAccount h m (Some a) = Return (ma, na, None)
      \<and> acct_ID (accounts h a') = acct_ID (accounts h a) \<longrightarrow>
      AddAccount h ma (Some a')
        = Return (ma, 0, Some (if acct_Key (accounts h a') = None then MissingRequiredField
                               else AlreadyExists K_account (acct_ID (accounts h a))))
      \<and> GetAccountByID ma (acct_ID (accounts h a)) = Some a)
   \<and> (AddOrder h m (Some p) = Return (ho, mo, no, None)
      \<and> order_ID (orders h p') = order_ID (orders h p) \<longrightarrow>
      ho = h
      \<and> AddOrder h mo (Some p') = Return (h, mo, 0, Some (AlreadyExists K_order (order_ID (orders h p))))
      \<and> fmlookup (ordersByID mo) (order_ID (orders h p)) = Some p)
   \<and> (AddAuthorization h m (Some z) = Return (hz, mz, nz, None)
      \<and> authz_ID (authorizations h z') = authz_ID (authorizations h z) \<longrightarrow>
      hz = h
      \<and> AddAuthorization h mz (Some z')
        = Return (h, mz, 0, Some (AlreadyExists K_authz (authz_ID (authorizations h z))))
      \<and> GetAuthorizationByID mz (authz_ID (authorizations h z)) = Some z)
   \<and> (AddChallenge h m (Some q) = Return (hq, mq, nq, None)
      \<and> chal_ID (challenges h q') = chal_ID (challenges h q) \<longrightarrow>
      hq = h
      \<and> AddChallenge h mq (Some q')
        = Return (h, mq, 0, Some (AlreadyExists K_challenge (chal_ID (challenges h q))))
      \<and> GetChallengeByID mq (chal_ID (challenges h q)) = Some q)
   \<and> (AddCertificate h m (Some c) = Return (mc, nc, None)
      \<and> cert_ID (certificates h c') = cert_ID (certificates h c) \<longrightarrow>
      AddCertificate h mc (Some c')
        = Return (mc, 0, Some (AlreadyExists K_cert (cert_ID (certificates h c))))
      \<and> GetCertificateByID mc (cert_ID (certificates h c)) = Some c)"
proof -
  have A: "AddAccount h m (Some a) = Return (ma, na, None)
      \<and> acct_ID (accounts h a') = acct_ID (accounts h a) \<longrightarrow>
      AddAccount h ma (Some a')
        = Return (ma, 0, Some (if acct_Key (accounts h a') = None then MissingRequiredField
                               else AlreadyExists K_account (acct_ID (accounts h a))))
      \<and> GetAccountByID ma (acct_ID (accounts h a)) = Some a"
    by (auto simp: AddAccount_Some GetAccountByID_def index_def split: if_splits)
  have O: "AddOrder h m (Some p) = Return (ho, mo, no, None)
      \<and> order_ID (orders h p') = order_ID (orders h p) \<longrightarrow>
      ho = h
      \<and> AddOrder h mo (Some p') = Return (h, mo, 0, Some (AlreadyExists K_order (order_ID (orders h p))))
      \<and> fmlookup (ordersByID mo) (order_ID (orders h p)) = Some p"
    by (auto simp: AddOrder_Some split: if_splits)
  have Z: "AddAuthorization h m (Some z) = Return (hz, mz, nz, None)
      \<and> authz_ID (authorizations h z') = authz_ID (authorizations h z) \<longrightarrow>
      hz = h
      \<and> AddAuthorization h mz (Some z')
        = Return (h, mz, 0, Some (AlreadyExists K_authz (authz_ID (authorizations h z))))
      \<and> GetAuthorizationByID mz (authz_ID (authorizations h z)) = Some z"
    by (auto simp: AddAuthorization_Some GetAuthorizationByID_def split: if_splits)
  have Q: "AddChallenge h m (Some q) = Return (hq, mq, nq, None)
      \<and> chal_ID (challenges h q') = chal_ID (challenges h q) \<longrightarrow>
      hq = h
      \<and> AddChallenge h mq (Some q')
        = Return (h, mq, 0, Some (AlreadyExists K_challenge (chal_ID (challenges h q))))
      \<and> GetChallengeByID mq (chal_ID (challenges h q)) = Some q"
    by (auto simp: AddChallenge_Some GetChallengeByID_def split: if_splits)
  have C: "AddCertificate h m (Some c) = Return (mc, nc, None)
      \<and> cert_ID (certificates h c') = cert_ID (certificates h c) \<longrightarrow>
      AddCertificate h mc (Some c')
        = Return (mc, 0, Some (AlreadyExists K_cert (cert_ID (certificates h c))))
      \<and> GetCertificateByID mc (cert_ID (certificates h c)) = Some c"
    by (auto simp: AddCertificate_Some GetCertificateByID_def split: if_splits)
  show ?thesis by (intro conjI A O Z Q C)
qed

theorem Add_twice_witness:
  "acct_ID (accounts sample_heap 3) = acct_ID (accounts sample_heap 0)
   \<and> acct_Key (accounts sample_heap 3) = Some 7
   \<and> order_ID (orders sample_heap 2) = order_ID (orders sample_heap 1)
   \<and> authz_ID (authorizations sample_heap 2) = authz_ID (authorizations sample_heap 1)
   \<and> chal_ID (challenges sample_heap 2) = chal_ID (challenges sample_heap 1)
   \<and> cert_ID (certificates sample_heap 2) = cert_ID (certificates sample_heap 1)
   \<and> AddAccount sample_heap (NewMemoryStore 0) (Some 0)
     = Return ((NewMemoryStore 0)\<lparr>accountsByID := fmupd ''acct1'' (Some 0) fmempty\<rparr>, 1, None)
   \<and> AddAccount sample_heap ((NewMemoryStore 0)\<lparr>accountsByID := fmupd ''acct1'' (Some 0) fmempty\<rparr>) (Some 3)
     = Return ((NewMemoryStore 0)\<lparr>accountsByID := fmupd ''acct1'' (Some 0) fmempty\<rparr>, 0,
               Some (AlreadyExists K_account ''acct1''))
   \<and> GetAccountByID ((NewMemoryStore 0)\<lparr>accountsByID := fmupd ''acct1'' (Some 0) fmempty\<rparr>) ''acct1'' = Some 0
   \<and> AddOrder sample_heap (NewMemoryStore 0) (Some 1)
     = Return (sample_heap, (NewMemoryStore 0)\<lparr>ordersByID := fmupd ''order1'' 1 fmempty\<rparr>, 1, None)
   \<and> AddOrder sample_heap ((NewMemoryStore 0)\<lparr>ordersByID := fmupd ''order1'' 1 fmempty\<rparr>) (Some 2)
     = Return (sample_heap, (NewMemoryStore 0)\<lparr>ordersByID := fmupd ''order1'' 1 fmempty\<rparr>, 0,
               Some (AlreadyExists K_order ''order1''))
   \<and> AddAuthorization sample_heap ((NewMemoryStore 0)\<lparr>authorizationsByID := fmupd ''authz1'' 1 fmempty\<rparr>) (Some 2)
     = Return (sample_heap, (NewMemoryStore 0)\<lparr>authorizationsByID := fmupd ''authz1'' 1 fmempty\<rparr>, 0,
               Some (AlreadyExists K_authz ''authz1''))
   \<and> AddChallenge sample_heap ((NewMemoryStore 0)\<lparr>challengesByID := fmupd ''chal1'' 1 fmempty\<rparr>) (Some 2)
     = Return (sample_heap, (NewMemoryStore 0)\<lparr>challengesByID := fmupd ''chal1'' 1 fmempty\<rparr>, 0,
               Some (AlreadyExists K_challenge ''chal1''))
   \<and> AddCertificate sample_heap ((NewMemoryStore 0)\<lparr>certificatesByID := fmupd ''cert1'' 1 fmempty\<rparr>) (Some 2)
     = Return ((NewMemoryStore 0)\<lparr>certificatesByID := fmupd ''cert1'' 1 fmempty\<rparr>, 0,
               Some (AlreadyExists K_cert ''cert1''))
   \<and> GetCertificateByID ((NewMemoryStore 0)\<lparr>certificatesByID := fmupd ''cert1'' 1 fmempty\<rparr>) ''cert1'' = Some 1"
  using Add_twice [where h = sample_heap and m = "NewMemoryStore 0"
      and a = 0 and a' = 3 and na = 1
      and ma = "(NewMemoryStore 0)\<lparr>accountsByID := fmupd ''acct1'' (Some 0) fmempty\<rparr>"
      and p = 1 and p' = 2 and no = 1 and ho = sample_heap
      and mo = "(NewMemoryStore 0)\<lparr>ordersByID := fmupd ''order1'' 1 fmempty\<rparr>"
      and z = 1 and z' = 2 and nz = 1 and hz = sample_heap
      and mz = "(NewMemoryStore 0)\<lparr>authorizationsByID := fmupd ''authz1'' 1 fmempty\<rparr>"
      and q = 1 and q' = 2 and nq = 1 and hq = sample_heap
      and mq = "(NewMemoryStore 0)\<lparr>challengesByID := fmupd ''chal1'' 1 fmempty\<rparr>"
      and c = 1 and c' = 2 and nc = 1
      and mc = "(NewMemoryStore 0)\<lparr>certificatesByID := fmupd ''cert1'' 1 fmempty\<rparr>"]
  by (simp add: sample_heap_def NewMemoryStore_def AddAccount_Some AddOrder_Some
      AddAuthorization_Some AddChallenge_Some AddCertificate_Some len_fmempty
      GetAccountByID_def index_def GetCertificateByID_def)

text \<open>
  The claim as written promises "already exists" for any second entity with the same ID. A
  second account with that ID and no key gets the "nil Key" error.
\<close>

theorem AddAccount_twice_nil_Key_counterexample:
  "AddAccount sample_heap (NewMemoryStore 0) (Some 0)
     = Return ((NewMemoryStore 0)\<lparr>accountsByID := fmupd ''acct1'' (Some 0) fmempty\<rparr>, 1, None)
   \<and> acct_ID (accounts sample_heap 1) = acct_ID (accounts sample_heap 0)
   \<and> AddAccount sample_heap ((NewMemoryStore 0)\<lparr>accountsByID := fmupd ''acct1'' (Some 0) fmempty\<rparr>) (Some 1)
     = Return ((NewMemoryStore 0)\<lparr>accountsByID := fmupd ''acct1'' (Some 0) fmempty\<rparr>, 0,
               Some MissingRequiredField)
   \<and> MissingRequiredField \<noteq> AlreadyExists K_account ''acct1''"
  by (simp add: sample_heap_def NewMemoryStore_def AddAccount_Some len_fmempty)

section \<open>Accounts: replacing a stored account\<close>

text \<open>
  Claim C6. \<open>UpdateAccountByID(id, acct)\<close> fails with the "does not exist" error and
  leaves the store as it was when no account is stored under \<open>id\<close> (a lookup of \<open>id\<close>
  yields \<open>nil\<close>); when an account is stored under \<open>id\<close> it succeeds, changes nothing but
  the entry of \<open>id\<close>, which becomes \<open>acct\<close> as a whole, and \<open>GetAccountByID(id)\<close> then
  returns \<open>acct\<close>.
\<close>

theorem UpdateAccountByID_spec:
  "(GetAccountByID m ident = None \<longrightarrow> UpdateAccountByID m ident acct = (m, Some (NotFound ident)))
   \<and> (GetAccountByID m ident \<noteq> None \<longrightarrow>
        UpdateAccountByID m ident acct = (m\<lparr>accountsByID := fmupd ident acct (accountsByID m)\<rparr>, None)
        \<and> GetAccountByID (fst (UpdateAccountByID m ident acct)) ident = acct)"
  by (simp add: UpdateAccountByID_def GetAccountByID_def index_def)

theorem UpdateAccountByID_spec_witness:
  "GetAccountByID (NewMemoryStore 0) ''acct1'' = None
   \<and> GetAccountByID ((NewMemoryStore 0)\<lparr>accountsByID := fmupd ''acct1'' (Some 0) fmempty\<rparr>) ''acct1'' = Some 0
   \<and> UpdateAccountByID (NewMemoryStore 0) ''acct1'' (Some 0) = (NewMemoryStore 0, Some (NotFound ''acct1''))
   \<and> UpdateAccountByID ((NewMemoryStore 0)\<lparr>accountsByID := fmupd ''acct1'' (Some 0) fmempty\<rparr>) ''acct1'' (Some 3)
       = ((NewMemoryStore 0)\<lparr>accountsByID := fmupd ''acct1'' (Some 3) fmempty\<rparr>, None)
   \<and> GetAccountByID ((NewMemoryStore 0)\<lparr>accountsByID := fmupd ''acct1'' (Some 3) fmempty\<rparr>) ''acct1'' = Some 3"
  using UpdateAccountByID_spec [where m = "NewMemoryStore 0" and ident = "''acct1''" and acct = "Some 0"]
    UpdateAccountByID_spec [where m = "(NewMemoryStore 0)\<lparr>accountsByID := fmupd ''acct1'' (Some 0) fmempty\<rparr>"
      and ident = "''acct1''" and acct = "Some 3"]
  by (simp add: GetAccountByID_def index_def NewMemoryStore_def)

section \<open>Certificates: revocation\<close>

text \<open>
  Claim C7. For every certificate \<open>cert\<close> and every store, \<open>RevokeCertificate(cert)\<close>
  returns without an error and yields the store with the entry of \<open>cert\<close>'s ID deleted,
  whether or not there was one; no certificate is stored under that ID afterwards, and
  revoking the same certificate again returns the same store.
\<close>

theorem RevokeCertificate_idempotent:
  "(let m' = m\<lparr>certificatesByID := fmdrop (cert_ID (certificates h c)) (certificatesByID m)\<rparr>
    in RevokeCertificate h m (Some c) = Return m'
       \<and> GetCertificateByID m' (cert_ID (certificates h c)) = None
       \<and> RevokeCertificate h m' (Some c) = Return m')"
  by (simp add: Let_def RevokeCertificate_def GetCertificateByID_def)

theorem RevokeCertificate_idempotent_witness:
  "RevokeCertificate sample_heap ((NewMemoryStore 0)\<lparr>certificatesByID := fmupd ''cert1'' 1 fmempty\<rparr>) (Some 1)
     = Return (NewMemoryStore 0)
   \<and> GetCertificateByID (NewMemoryStore 0) ''cert1'' = None
   \<and> RevokeCertificate sample_heap (NewMemoryStore 0) (Some 1) = Return (NewMemoryStore 0)"
  using RevokeCertificate_idempotent [where m = "(NewMemoryStore 0)\<lparr>certificatesByID := fmupd ''cert1'' 1 fmempty\<rparr>"
      and h = sample_heap and c = 1]
  by (simp add: Let_def sample_heap_def NewMemoryStore_def fmdrop_fmupd)

section \<open>Orders: the status is recomputed on every read\<close>

text \<open>
  Claim C1, as the code has it. For every order stored under \<open>id\<close> whose status
  computation succeeds at the clock's reading, and on which no read lock is held,
  \<open>GetOrderByID(id)\<close> writes the computed status into the stored order and returns the
  stored reference. The order keeps every other field, and no other object changes. A
  second call after nothing but a clock advance writes the status computed at the new
  reading: with the sample computation the first call at time 0 leaves \<open>pending\<close>, the
  second at time 7200 leaves \<open>expired\<close>, and the order is otherwise the same. When the
  status computation fails for a stored order, the call panics with that error.
\<close>

theorem GetOrderByID_recomputes_status:
  "(fmlookup (ordersByID m) ident = Some p \<and> order_readers (orders h p) = 0
      \<and> GetStatus h p (clk m) = Inr st \<longrightarrow>
      GetOrderByID GetStatus h m ident = Return (order_set_Status h p st, Some p)
      \<and> orders (order_set_Status h p st) p = (orders h p)\<lparr>order_Status := st\<rparr>
      \<and> (\<forall>q. q \<noteq> p \<longrightarrow> orders (order_set_Status h p st) q = orders h q)
      \<and> accounts (order_set_Status h p st) = accounts h
      \<and> authorizations (order_set_Status h p st) = authorizations h
      \<and> challenges (order_set_Status h p st) = challenges h
      \<and> certificates (order_set_Status h p st) = certificates h
      \<and> (\<forall>t st'. GetStatus (order_set_Status h p st) p t = Inr st' \<longrightarrow>
            GetOrderByID GetStatus (order_set_Status h p st) (m\<lparr>clk := t\<rparr>) ident
              = Return (order_set_Status h p st', Some p)))
   \<and> (fmlookup (ordersByID m) ident = Some p \<and> GetStatus h p (clk m) = Inl err \<longrightarrow>
      GetOrderByID GetStatus h m ident = Panic err)
   \<and> GetOrderByID sample_GetStatus sample_heap
        ((NewMemoryStore 0)\<lparr>ordersByID := fmupd ''order1'' 1 fmempty\<rparr>) ''order1''
      = Return (order_set_Status sample_heap 1 ''pending'', Some 1)
   \<and> GetOrderByID sample_GetStatus (order_set_Status sample_heap 1 ''pending'')
        ((NewMemoryStore 0)\<lparr>ordersByID := fmupd ''order1'' 1 fmempty, clk := 7200\<rparr>) ''order1''
      = Return (order_set_Status sample_heap 1 ''expired'', Some 1)"
proof -
  have general: "fmlookup (ordersByID m) ident = Some p \<and> order_readers (orders h p) = 0
      \<and> GetStatus h p (clk m) = Inr st \<longrightarrow>
      GetOrderByID GetStatus h m ident = Return (order_set_Status h p st, Some p)
      \<and> orders (order_set_Status h p st) p = (orders h p)\<lparr>order_Status := st\<rparr>
      \<and> (\<forall>q. q \<noteq> p \<longrightarrow> orders (order_set_Status h p st) q = orders h q)
      \<and> accounts (order_set_Status h p st) = accounts h
      \<and> authorizations (order_set_Status h p st) = authorizations h
      \<and> challenges (order_set_Status h p st) = challenges h
      \<and> certificates (order_set_Status h p st) = certificates h
      \<and> (\<forall>t st'. GetStatus (order_set_Status h p st) p t = Inr st' \<longrightarrow>
            GetOrderByID GetStatus (order_set_Status h p st) (m\<lparr>clk := t\<rparr>) ident
              = Return (order_set_Status h p st', Some p))"
    by (simp add: GetOrderByID_stored order_set_Status_frame order_set_Status_twice)
  have failing: "fmlookup (ordersByID m) ident = Some p \<and> GetStatus h p (clk m) = Inl err \<longrightarrow>
      GetOrderByID GetStatus h m ident = Panic err"
    by (simp add: GetOrderByID_stored)
  have first: "GetOrderByID sample_GetStatus sample_heap
        ((NewMemoryStore 0)\<lparr>ordersByID := fmupd ''order1'' 1 fmempty\<rparr>) ''order1''
      = Return (order_set_Status sample_heap 1 ''pending'', Some 1)"
    by (simp add: GetOrderByID_def sample_GetStatus_def sample_heap_def NewMemoryStore_def)
  have second: "GetOrderByID sample_GetStatus (order_set_Status sample_heap 1 ''pending'')
        ((NewMemoryStore 0)\<lparr>ordersByID := fmupd ''order1'' 1 fmempty, clk := 7200\<rparr>) ''order1''
      = Return (order_set_Status sample_heap 1 ''expired'', Some 1)"
    by (simp add: GetOrderByID_def sample_GetStatus_def sample_heap_def NewMemoryStore_def
        order_set_Status_def)
  show ?thesis by (intro conjI general failing first second)
qed

theorem GetOrderByID_recomputes_status_witness:
  "fmlookup (ordersByID ((NewMemoryStore 0)\<lparr>ordersByID := fmupd ''order1'' 1 fmempty\<rparr>)) ''order1'' = Some 1
   \<and> order_readers (orders sample_heap 1) = 0
   \<and> sample_GetStatus sample_heap 1 (clk ((NewMemoryStore 0)\<lparr>ordersByID := fmupd ''order1'' 1 fmempty\<rparr>))
       = Inr ''pending''
   \<and> GetOrderByID sample_GetStatus sample_heap
        ((NewMemoryStore 0)\<lparr>ordersByID := fmupd ''order1'' 1 fmempty\<rparr>) ''order1''
       = Return (order_set_Status sample_heap 1 ''pending'', Some 1)
   \<and> sample_GetStatus (order_set_Status sample_heap 1 ''pending'') 1 7200 = Inr ''expired''
   \<and> GetOrderByID sample_GetStatus (order_set_Status sample_heap 1 ''pending'')
        ((NewMemoryStore 0)\<lparr>ordersByID := fmupd ''order1'' 1 fmempty, clk := 7200\<rparr>) ''order1''
       = Return (order_set_Status sample_heap 1 ''expired'', Some 1)
   \<and> orders (order_set_Status sample_heap 1 ''expired'') 1
       = \<lparr>order_readers = 0, order_ID = ''order1'', order_Status = ''expired'', order_ExpiresDate = 3600\<rparr>
   \<and> orders sample_heap 1
       = \<lparr>order_readers = 0, order_ID = ''order1'', order_Status = ''pending'', order_ExpiresDate = 3600\<rparr>"
  using GetOrderByID_recomputes_status [where m = "(NewMemoryStore 0)\<lparr>ordersByID := fmupd ''order1'' 1 fmempty\<rparr>"
      and ident = "''order1''" and p = 1 and h = sample_heap and GetStatus = sample_GetStatus
      and st = "''pending''"]
  by (simp add: sample_GetStatus_def sample_heap_def NewMemoryStore_def order_set_Status_def)

text \<open>
  The claim as written covers every stored order. When the status computation fails, the
  call panics: it writes nothing and returns nothing.
\<close>

theorem GetOrderByID_status_error_counterexample:
  "fmlookup (ordersByID ((NewMemoryStore 0)\<lparr>ordersByID := fmupd ''order1'' 1 fmempty\<rparr>)) ''order1'' = Some 1
   \<and> GetOrderByID (\<lambda>h p now. Inl ''invalid'') sample_heap
        ((NewMemoryStore 0)\<lparr>ordersByID := fmupd ''order1'' 1 fmempty\<rparr>) ''order1''
       = Panic ''invalid''"
  by (simp add: GetOrderByID_def NewMemoryStore_def)

text \<open>
  Claim C4 says that \<open>GetOrderByID\<close> returns normally if and only if the status
  computation succeeds or the order is absent. \<open>AddOrder\<close> takes the order's read lock,
  and on an empty ID it returns before \<open>order.RUnlock()\<close>. Run on the sample memory:
  order 0 has an empty ID and no lock held; \<open>AddOrder\<close> rejects it and leaves one read
  lock on it; the caller gives the order an ID and adds it again, now without error; the
  status computation for it succeeds, and \<open>GetOrderByID\<close> waits for ever in
  \<open>order.Lock()\<close>.
\<close>

theorem AddOrder_keeps_read_lock_GetOrderByID_blocks:
  "(let h1 = order_RLock sample_heap 0;
        h2 = h1\<lparr>orders := (orders h1)(0 := (orders h1 0)\<lparr>order_ID := ''order0''\<rparr>)\<rparr>;
        m1 = (NewMemoryStore 0)\<lparr>ordersByID := fmupd ''order0'' 0 fmempty\<rparr>
    in order_readers (orders sample_heap 0) = 0
       \<and> AddOrder sample_heap (NewMemoryStore 0) (Some 0)
           = Return (h1, NewMemoryStore 0, 0, Some (EmptyIdentifier K_order))
       \<and> order_readers (orders h1 0) = 1
       \<and> AddOrder h2 (NewMemoryStore 0) (Some 0) = Return (h2, m1, 1, None)
       \<and> fmlookup (ordersByID m1) ''order0'' = Some 0
       \<and> sample_GetStatus h2 0 (clk m1) = Inr ''pending''
       \<and> GetOrderByID sample_GetStatus h2 m1 ''order0'' = Blocked)"
  by (simp add: Let_def sample_heap_def NewMemoryStore_def AddOrder_Some len_fmempty
      order_RLock_def sample_GetStatus_def GetOrderByID_def)

section \<open>Certificates: lookup by content\<close>

text \<open>
  Claim C5, as the code has it. Whatever order \<open>range\<close> visits the map in,
  \<open>GetCertificateByDER(der)\<close> returns a certificate that is stored now and whose DER is
  deeply equal to \<open>der\<close> (the same bytes, and nil only with nil) whenever such a
  certificate is stored, and returns nil when none is, no matter which other contents are
  stored.
\<close>

theorem GetCertificateByDER_finds_deeply_equal:
  "range_order (certificatesByID m) ks \<longrightarrow>
     ((\<exists>k c. fmlookup (certificatesByID m) k = Some c \<and> cert_DER (certificates h c) = der) \<longrightarrow>
        (\<exists>k c. GetCertificateByDER h m ks der = Some c
           \<and> fmlookup (certificatesByID m) k = Some c \<and> cert_DER (certificates h c) = der))
     \<and> ((\<nexists>k c. fmlookup (certificatesByID m) k = Some c \<and> cert_DER (certificates h c) = der) \<longrightarrow>
        GetCertificateByDER h m ks der = None)"
proof (intro impI conjI)
  assume ro: "range_order (certificatesByID m) ks"
  assume "\<exists>k c. fmlookup (certificatesByID m) k = Some c \<and> cert_DER (certificates h c) = der"
  then obtain k c where kc: "fmlookup (certificatesByID m) k = Some c"
    "cert_DER (certificates h c) = der" by blast
  from kc(1) ro have "k \<in> set ks"
    by (simp add: range_order_def fmdom'I)
  with kc have "scan_DER h (certificatesByID m) der ks \<noteq> None"
    using scan_DER_None by blast
  then obtain c' where c': "scan_DER h (certificatesByID m) der ks = Some c'" by blast
  from scan_DER_Some [OF c'] c'
  show "\<exists>k c. GetCertificateByDER h m ks der = Some c
           \<and> fmlookup (certificatesByID m) k = Some c \<and> cert_DER (certificates h c) = der"
    by (auto simp: GetCertificateByDER_def)
next
  assume none: "\<nexists>k c. fmlookup (certificatesByID m) k = Some c \<and> cert_DER (certificates h c) = der"
  show "GetCertificateByDER h m ks der = None"
  proof (cases "scan_DER h (certificatesByID m) der ks")
    case None
    then show ?thesis by (simp add: GetCertificateByDER_def)
  next
    case (Some c)
    from scan_DER_Some [OF Some] none show ?thesis by blast
  qed
qed

theorem GetCertificateByDER_finds_deeply_equal_witness:
  "range_order (fmupd ''cert1'' 1 (fmupd ''cert3'' (3::nat) fmempty)) [''cert3'', ''cert1'']
   \<and> fmlookup (fmupd ''cert1'' 1 (fmupd ''cert3'' (3::nat) fmempty)) ''cert1'' = Some 1
   \<and> fmlookup (fmupd ''cert1'' 1 (fmupd ''cert3'' (3::nat) fmempty)) ''cert3'' = Some 3
   \<and> cert_DER (certificates sample_heap 1) = Some [48, 130, 1]
   \<and> cert_DER (certificates sample_heap 3) = Some []
   \<and> GetCertificateByDER sample_heap
        ((NewMemoryStore 0)\<lparr>certificatesByID := fmupd ''cert1'' 1 (fmupd ''cert3'' 3 fmempty)\<rparr>)
        [''cert3'', ''cert1''] (Some [48, 130, 1]) = Some 1
   \<and> GetCertificateByDER sample_heap
        ((NewMemoryStore 0)\<lparr>certificatesByID := fmupd ''cert1'' 1 (fmupd ''cert3'' 3 fmempty)\<rparr>)
        [''cert3'', ''cert1''] (Some [48, 130]) = None"
  using GetCertificateByDER_finds_deeply_equal [where h = sample_heap
      and m = "(NewMemoryStore 0)\<lparr>certificatesByID := fmupd ''cert1'' 1 (fmupd ''cert3'' 3 fmempty)\<rparr>"
      and ks = "[''cert3'', ''cert1'']" and der = "Some [48, 130, 1]"]
    GetCertificateByDER_finds_deeply_equal [where h = sample_heap
      and m = "(NewMemoryStore 0)\<lparr>certificatesByID := fmupd ''cert1'' 1 (fmupd ''cert3'' 3 fmempty)\<rparr>"
      and ks = "[''cert3'', ''cert1'']" and der = "Some [48, 130]"]
  by (auto simp: range_order_def sample_heap_def NewMemoryStore_def GetCertificateByDER_def
      DeepEqual_def)

text \<open>
  The claim as written compares bytes and speaks of certificates that were inserted. A
  stored certificate with an empty, non-nil DER holds the same bytes as a nil query (none),
  and is not found; and a certificate that was inserted and then revoked is not found by
  its bytes.
\<close>

theorem GetCertificateByDER_counterexample:
  "fmlookup (certificatesByID ((NewMemoryStore 0)\<lparr>certificatesByID := fmupd ''cert3'' 3 fmempty\<rparr>)) ''cert3''
     = Some 3
   \<and> slice_bytes (cert_DER (certificates sample_heap 3)) = slice_bytes None
   \<and> GetCertificateByDER sample_heap
        ((NewMemoryStore 0)\<lparr>certificatesByID := fmupd ''cert3'' 3 fmempty\<rparr>) [''cert3''] None = None
   \<and> AddCertificate sample_heap (NewMemoryStore 0) (Some 1)
     = Return ((NewMemoryStore 0)\<lparr>certificatesByID := fmupd ''cert1'' 1 fmempty\<rparr>, 1, None)
   \<and> cert_DER (certificates sample_heap 1) = Some [48, 130, 1]
   \<and> RevokeCertificate sample_heap ((NewMemoryStore 0)\<lparr>certificatesByID := fmupd ''cert1'' 1 fmempty\<rparr>) (Some 1)
     = Return (NewMemoryStore 0)
   \<and> GetCertificateByDER sample_heap (NewMemoryStore 0) [] (Some [48, 130, 1]) = None"
  by (simp add: sample_heap_def NewMemoryStore_def GetCertificateByDER_def DeepEqual_def
      slice_bytes_def AddCertificate_Some len_fmempty RevokeCertificate_def fmdrop_fmupd)

end
